theory Spec2Isabelle
  imports Main
begin

section \<open>JavaScript values\<close>

text \<open>
  The backend (\<^verbatim>\<open>src/modules/ipc/ipcProviderBackend2.js\<close>) works on values produced
  by \<^verbatim>\<open>JSON.parse\<close> and on five module-level object literals that serve as response
  templates. Parsed values are trees; the templates are shared mutable objects, so a
  value may also be a reference to one of them, read through the template store.

  Numbers are restricted to integers. Objects are field lists in key order.
\<close>

datatype tmpl = ErrorMethod | ErrorTimeout | ErrorUnlock | ErrorSendTxBatch | NonExistingRequest

datatype jsval =
    JUndef
  | JNull
  | JBool bool
  | JNum int
  | JStr string
  | JArr "jsval list"
  | JObj "(string \<times> jsval) list"
  | JRef tmpl

text \<open>
  \<open>TypeError\<close> is the JavaScript exception. \<open>Unmodelled\<close> marks the few inputs on
  which a library call leaves the embedding (an underscore collection function applied to
  an array-like object that is not an array, an assignment to a property of a primitive).
\<close>

datatype error = TypeError | Unmodelled

text \<open>
  A template's mutable part: the text of \<^verbatim>\<open>error.message\<close> (unused for
  \<^verbatim>\<open>nonExistingRequest\<close>, which has no \<^verbatim>\<open>error\<close> field) and the \<^verbatim>\<open>id\<close> field.
\<close>

record tcell =
  t_message :: string
  t_id :: jsval

type_synonym store = "tmpl \<Rightarrow> tcell"

definition quote :: char where
  "quote = CHR 0x27"

definition tmpl_has_error :: "tmpl \<Rightarrow> bool" where
  "tmpl_has_error r = (r \<noteq> NonExistingRequest)"

definition tmpl_code :: "tmpl \<Rightarrow> int" where
  "tmpl_code r = (if r = ErrorMethod then - 32601 else - 32603)"

definition initial_message :: "tmpl \<Rightarrow> string" where
  "initial_message r = (case r of
       ErrorMethod \<Rightarrow> ''Method '' @ [quote] @ ''__method__'' @ [quote] @ '' not allowed.''
     | ErrorTimeout \<Rightarrow>
         ''Request timed out for method  '' @ [quote] @ ''__method__'' @ [quote] @ ''.''
     | ErrorUnlock \<Rightarrow> ''Transaction denied''
     | ErrorSendTxBatch \<Rightarrow>
         ''Transactions denied, sendTransaction is not allowed in batch requests.''
     | NonExistingRequest \<Rightarrow> [])"

definition initial_store :: store where
  "initial_store r = \<lparr>t_message = initial_message r, t_id = JStr ''__id__''\<rparr>"

text \<open>The fields of a template object, as its literal lists them.\<close>

definition tmpl_fields :: "store \<Rightarrow> tmpl \<Rightarrow> (string \<times> jsval) list" where
  "tmpl_fields st r =
     (if tmpl_has_error r then
        [(''jsonrpc'', JStr ''2.0''),
         (''error'', JObj [(''code'', JNum (tmpl_code r)), (''message'', JStr (t_message (st r)))]),
         (''id'', t_id (st r))]
      else
        [(''jsonrpc'', JStr ''2.0''),
         (''method'', JStr ''eth_nonExistingMethod''),
         (''params'', JArr []),
         (''id'', t_id (st r))])"

text \<open>
  Reading a named property \<^verbatim>\<open>v.k\<close>. The names the backend reads (\<^verbatim>\<open>error\<close>,
  \<^verbatim>\<open>method\<close>, \<^verbatim>\<open>result\<close>, \<^verbatim>\<open>id\<close>, \<^verbatim>\<open>params\<close>, \<^verbatim>\<open>gas\<close>, ...) are not
  properties of any built-in prototype, so they are undefined on primitives and arrays;
  on \<^verbatim>\<open>null\<close> and \<^verbatim>\<open>undefined\<close> the read throws.
\<close>

fun get_prop :: "store \<Rightarrow> jsval \<Rightarrow> string \<Rightarrow> error + jsval" where
  "get_prop st JUndef k = Inl TypeError"
| "get_prop st JNull k = Inl TypeError"
| "get_prop st (JObj fs) k = (case map_of fs k of Some v \<Rightarrow> Inr v | None \<Rightarrow> Inr JUndef)"
| "get_prop st (JRef r) k =
     (case map_of (tmpl_fields st r) k of Some v \<Rightarrow> Inr v | None \<Rightarrow> Inr JUndef)"
| "get_prop st v k = Inr JUndef"

text \<open>Reading \<^verbatim>\<open>v[0]\<close>.\<close>

fun get_index0 :: "store \<Rightarrow> jsval \<Rightarrow> error + jsval" where
  "get_index0 st JUndef = Inl TypeError"
| "get_index0 st JNull = Inl TypeError"
| "get_index0 st (JArr xs) = (case xs of [] \<Rightarrow> Inr JUndef | x # _ \<Rightarrow> Inr x)"
| "get_index0 st (JStr s) = (case s of [] \<Rightarrow> Inr JUndef | c # _ \<Rightarrow> Inr (JStr [c]))"
| "get_index0 st (JObj fs) = (case map_of fs ''0'' of Some v \<Rightarrow> Inr v | None \<Rightarrow> Inr JUndef)"
| "get_index0 st v = Inr JUndef"

fun truthy :: "jsval \<Rightarrow> bool" where
  "truthy JUndef = False"
| "truthy JNull = False"
| "truthy (JBool b) = b"
| "truthy (JNum n) = (n \<noteq> 0)"
| "truthy (JStr s) = (s \<noteq> [])"
| "truthy v = True"

subsection \<open>Conversion to string\<close>

definition digit_char :: "nat \<Rightarrow> char" where
  "digit_char d =
     (if d = 0 then CHR ''0'' else if d = 1 then CHR ''1'' else if d = 2 then CHR ''2''
      else if d = 3 then CHR ''3'' else if d = 4 then CHR ''4'' else if d = 5 then CHR ''5''
      else if d = 6 then CHR ''6'' else if d = 7 then CHR ''7'' else if d = 8 then CHR ''8''
      else CHR ''9'')"

fun show_nat :: "nat \<Rightarrow> string" where
  "show_nat n =
     (if n < 10 then [digit_char n]
      else show_nat (n div 10) @ [digit_char (n mod 10)])"

declare show_nat.simps [simp del]

definition show_int :: "int \<Rightarrow> string" where
  "show_int i = (if i < 0 then CHR ''-'' # show_nat (nat (- i)) else show_nat (nat i))"

fun to_str :: "jsval \<Rightarrow> string"
  and join_strs :: "jsval list \<Rightarrow> string"
  and elem_str :: "jsval \<Rightarrow> string" where
  "to_str JUndef = ''undefined''"
| "to_str JNull = ''null''"
| "to_str (JBool b) = (if b then ''true'' else ''false'')"
| "to_str (JNum n) = show_int n"
| "to_str (JStr s) = s"
| "to_str (JArr xs) = join_strs xs"
| "to_str (JObj fs) = ''[object Object]''"
| "to_str (JRef r) = ''[object Object]''"
| "join_strs [] = []"
| "join_strs [x] = elem_str x"
| "join_strs (x # y # ys) = elem_str x @ '','' @ join_strs (y # ys)"
| "elem_str JUndef = []"
| "elem_str JNull = []"
| "elem_str v = to_str v"

subsection \<open>The regular expressions\<close>

text \<open>\<^verbatim>\<open>/^eth_|^shh_|^net_|^web3_|^db_/.test(m)\<close> on the string form of \<^verbatim>\<open>m\<close>.\<close>

definition starts_with :: "string \<Rightarrow> string \<Rightarrow> bool" where
  "starts_with p s = (take (length p) s = p)"

definition allowed_method :: "string \<Rightarrow> bool" where
  "allowed_method m =
     (starts_with ''eth_'' m \<or> starts_with ''shh_'' m \<or> starts_with ''net_'' m
      \<or> starts_with ''web3_'' m \<or> starts_with ''db_'' m)"

text \<open>
  \<^verbatim>\<open>s.replace(/'[a-z_]*'/i, repl)\<close>: the leftmost quote that is followed by a run of
  letters and underscores and then a quote is replaced, once. In the replacement text
  \<^verbatim>\<open>$$\<close>, \<^verbatim>\<open>$&\<close>, \<^verbatim>\<open>$`\<close> and \<^verbatim>\<open>$'\<close> stand for a dollar sign, the match, the text
  before it and the text after it.
\<close>

definition word_char :: "char \<Rightarrow> bool" where
  "word_char c = (c \<in> set ''abcdefghijklmnopqrstuvwxyzABCDEFGHIJKLMNOPQRSTUVWXYZ_'')"

definition match_here :: "string \<Rightarrow> (string \<times> string) option" where
  "match_here cs =
     (case dropWhile word_char cs of
        [] \<Rightarrow> None
      | d # suf \<Rightarrow>
          if d = quote then Some (quote # takeWhile word_char cs @ [quote], suf) else None)"

fun find_match :: "string \<Rightarrow> string \<Rightarrow> (string \<times> string \<times> string) option" where
  "find_match pre [] = None"
| "find_match pre (c # cs) =
     (if c = quote then
        (case match_here cs of
           Some (m, suf) \<Rightarrow> Some (pre, m, suf)
         | None \<Rightarrow> find_match (pre @ [c]) cs)
      else find_match (pre @ [c]) cs)"

fun expand_repl :: "string \<Rightarrow> string \<Rightarrow> string \<Rightarrow> string \<Rightarrow> string" where
  "expand_repl pre m suf [] = []"
| "expand_repl pre m suf [c] = [c]"
| "expand_repl pre m suf (c # d # r) =
     (if c = CHR ''$'' \<and> d = CHR ''$'' then CHR ''$'' # expand_repl pre m suf r
      else if c = CHR ''$'' \<and> d = CHR ''&'' then m @ expand_repl pre m suf r
      else if c = CHR ''$'' \<and> d = CHR 0x60 then pre @ expand_repl pre m suf r
      else if c = CHR ''$'' \<and> d = quote then suf @ expand_repl pre m suf r
      else c # expand_repl pre m suf (d # r))"

definition js_replace :: "string \<Rightarrow> string \<Rightarrow> string" where
  "js_replace s repl =
     (case find_match [] s of
        None \<Rightarrow> s
      | Some (pre, m, suf) \<Rightarrow> pre @ expand_repl pre m suf repl @ suf)"

section \<open>Effects and exceptions\<close>

text \<open>
  A JavaScript function that mutates state and may throw is a function from the state to
  an outcome and the state it leaves behind; the state survives a throw, as the mutations
  made before a JavaScript exception do.
\<close>

type_synonym ('s, 'a) js = "'s \<Rightarrow> (error + 'a) \<times> 's"

definition ret :: "'a \<Rightarrow> ('s, 'a) js" where
  "ret a s = (Inr a, s)"

definition throw :: "error \<Rightarrow> ('s, 'a) js" where
  "throw e s = (Inl e, s)"

definition bindE :: "('s, 'a) js \<Rightarrow> ('a \<Rightarrow> ('s, 'b) js) \<Rightarrow> ('s, 'b) js" where
  "bindE m f s = (case m s of (Inl e, s') \<Rightarrow> (Inl e, s') | (Inr a, s') \<Rightarrow> f a s')"

text \<open>\<^verbatim>\<open>_.map(list, f)\<close> on an array, with a callback that has effects.\<close>

fun map_js :: "('a \<Rightarrow> ('s, 'b) js) \<Rightarrow> 'a list \<Rightarrow> ('s, 'b list) js" where
  "map_js f [] = ret []"
| "map_js f (x # xs) = bindE (f x) (\<lambda>y. bindE (map_js f xs) (\<lambda>ys. ret (y # ys)))"

definition getp :: "jsval \<Rightarrow> string \<Rightarrow> (store, jsval) js" where
  "getp v k st = (get_prop st v k, st)"

section \<open>Error synthesis\<close>

text \<open>
  \<^verbatim>\<open>makeError(payload, error)\<close> (lines 345-351). The argument \<^verbatim>\<open>error\<close> is always one
  of the module-level templates; the function writes into it and returns it.
\<close>

definition makeError :: "jsval \<Rightarrow> tmpl \<Rightarrow> (store, jsval) js" where
  "makeError payload e =
     bindE (if tmpl_has_error e then
              bindE (getp payload ''method'') (\<lambda>m st.
                (Inr (), st(e := (st e)\<lparr>t_message :=
                   js_replace (t_message (st e)) ([quote] @ to_str m @ [quote])\<rparr>)))
            else ret ())
       (\<lambda>_. bindE (getp payload ''id'') (\<lambda>i st.
          (Inr (JRef e), st(e := (st e)\<lparr>t_id := i\<rparr>))))"

text \<open>\<^verbatim>\<open>returnError(payload, error)\<close> (lines 358-366).\<close>

definition returnError :: "jsval \<Rightarrow> tmpl \<Rightarrow> (store, jsval) js" where
  "returnError payload e =
     (case payload of
        JArr loads \<Rightarrow> bindE (map_js (\<lambda>load. makeError load e) loads) (\<lambda>vs. ret (JArr vs))
      | _ \<Rightarrow> makeError payload e)"

text \<open>Auxiliary notions for stating properties: a value that property reads do not throw on,
  and the value such a read gives.\<close>

definition defined :: "jsval \<Rightarrow> bool" where
  "defined v = (v \<noteq> JUndef \<and> v \<noteq> JNull)"

definition the_prop :: "store \<Rightarrow> jsval \<Rightarrow> string \<Rightarrow> jsval" where
  "the_prop st v k = (case get_prop st v k of Inr x \<Rightarrow> x | Inl _ \<Rightarrow> JUndef)"

definition new_message :: "store \<Rightarrow> jsval \<Rightarrow> tmpl \<Rightarrow> string" where
  "new_message st payload e =
     (if tmpl_has_error e
      then js_replace (t_message (st e)) ([quote] @ to_str (the_prop st payload ''method'') @ [quote])
      else t_message (st e))"

lemma get_prop_defined: "defined v \<Longrightarrow> get_prop st v k = Inr (the_prop st v k)"
  by (cases v) (auto simp: defined_def the_prop_def split: option.splits)

lemma get_prop_upd: "p \<noteq> JRef e \<Longrightarrow> get_prop (st(e := c)) p k = get_prop st p k"
  by (cases p) (auto simp: tmpl_fields_def)

lemma the_prop_upd: "p \<noteq> JRef e \<Longrightarrow> the_prop (st(e := c)) p k = the_prop st p k"
  by (simp add: the_prop_def get_prop_upd)

lemma makeError_defined:
  assumes "defined p" "p \<noteq> JRef e"
  shows "makeError p e st =
     (Inr (JRef e),
      st(e := (st e)\<lparr>t_message := new_message st p e, t_id := the_prop st p ''id''\<rparr>))"
  using assms
  by (simp add: makeError_def bindE_def getp_def ret_def new_message_def get_prop_defined
      the_prop_upd)

lemma makeError_null: "\<not> defined p \<Longrightarrow> makeError p e st = (Inl TypeError, st)"
  by (cases p) (auto simp: makeError_def bindE_def getp_def ret_def defined_def)

lemma js_replace_no_match: "find_match [] msg = None \<Longrightarrow> js_replace msg r = msg"
  by (simp add: js_replace_def)

lemma new_message_no_match:
  "find_match [] (t_message (st e)) = None \<Longrightarrow> new_message st p e = t_message (st e)"
  by (simp add: new_message_def js_replace_no_match)

lemma map_makeError:
  assumes "\<forall>p\<in>set ps. defined p \<and> p \<noteq> JRef e"
  shows "\<exists>st'. map_js (\<lambda>load. makeError load e) ps st
            = (Inr (replicate (length ps) (JRef e)), st')
     \<and> (\<forall>r. r \<noteq> e \<longrightarrow> st' r = st r)
     \<and> (ps \<noteq> [] \<longrightarrow> t_id (st' e) = the_prop st (last ps) ''id'')
     \<and> (ps = [] \<longrightarrow> st' = st)
     \<and> (find_match [] (t_message (st e)) = None \<longrightarrow> t_message (st' e) = t_message (st e))"
  using assms
proof (induction ps arbitrary: st)
  case Nil
  then show ?case by (simp add: ret_def)
next
  case (Cons p ps)
  let ?st1 = "st(e := (st e)\<lparr>t_message := new_message st p e, t_id := the_prop st p ''id''\<rparr>)"
  have hd: "makeError p e st = (Inr (JRef e), ?st1)"
    using Cons.prems by (simp add: makeError_defined)
  have "\<exists>st'. map_js (\<lambda>load. makeError load e) ps ?st1
            = (Inr (replicate (length ps) (JRef e)), st')
     \<and> (\<forall>r. r \<noteq> e \<longrightarrow> st' r = ?st1 r)
     \<and> (ps \<noteq> [] \<longrightarrow> t_id (st' e) = the_prop ?st1 (last ps) ''id'')
     \<and> (ps = [] \<longrightarrow> st' = ?st1)
     \<and> (find_match [] (t_message (?st1 e)) = None \<longrightarrow> t_message (st' e) = t_message (?st1 e))"
    using Cons.prems by (intro Cons.IH) simp
  then obtain st' where H:
    "map_js (\<lambda>load. makeError load e) ps ?st1 = (Inr (replicate (length ps) (JRef e)), st')
     \<and> (\<forall>r. r \<noteq> e \<longrightarrow> st' r = ?st1 r)
     \<and> (ps \<noteq> [] \<longrightarrow> t_id (st' e) = the_prop ?st1 (last ps) ''id'')
     \<and> (ps = [] \<longrightarrow> st' = ?st1)
     \<and> (find_match [] (t_message (?st1 e)) = None \<longrightarrow> t_message (st' e) = t_message (?st1 e))"
    ..
  have tl: "map_js (\<lambda>load. makeError load e) ps ?st1 = (Inr (replicate (length ps) (JRef e)), st')"
    using H by (rule conjunct1)
  have fr: "\<forall>r. r \<noteq> e \<longrightarrow> st' r = ?st1 r"
    using H by (elim conjE)
  have lst: "ps \<noteq> [] \<longrightarrow> t_id (st' e) = the_prop ?st1 (last ps) ''id''"
    using H by (elim conjE)
  have nil: "ps = [] \<longrightarrow> st' = ?st1"
    using H by (elim conjE)
  have msg: "find_match [] (t_message (?st1 e)) = None \<longrightarrow> t_message (st' e) = t_message (?st1 e)"
    using H by (elim conjE)
  have "ps \<noteq> [] \<Longrightarrow> last ps \<noteq> JRef e"
    using Cons.prems by (metis last_in_set list.set_intros(2))
  with lst have lst': "ps \<noteq> [] \<longrightarrow> t_id (st' e) = the_prop st (last ps) ''id''"
    by (simp add: the_prop_upd)
  have msg': "find_match [] (t_message (st e)) = None \<longrightarrow> t_message (st' e) = t_message (st e)"
    using msg by (simp add: new_message_no_match)
  have r: "map_js (\<lambda>load. makeError load e) (p # ps) st
             = (Inr (replicate (length (p # ps)) (JRef e)), st')"
    using hd tl by (simp add: bindE_def ret_def)
  have fr': "\<forall>r. r \<noteq> e \<longrightarrow> st' r = st r"
    using fr by simp
  have last': "t_id (st' e) = the_prop st (last (p # ps)) ''id''"
    using lst' nil by (cases "ps = []") simp_all
  show ?case
    by (rule exI [of _ st']) (use r fr' last' msg' in simp)
qed



section \<open>Underscore helpers\<close>

text \<open>
  The backend uses \<^verbatim>\<open>_.isObject\<close>, \<^verbatim>\<open>_.isArray\<close>, \<^verbatim>\<open>_.isEmpty\<close>, \<^verbatim>\<open>_.find\<close>,
  \<^verbatim>\<open>_.map\<close>, \<^verbatim>\<open>_.each\<close> and \<^verbatim>\<open>_.intersection\<close> of the underscore library (1.8),
  which is not part of the repository. They are written here as the library defines them.
\<close>

definition lift_r :: "error + 'a \<Rightarrow> ('s, 'a) js" where
  "lift_r r s = (r, s)"

fun isObject :: "jsval \<Rightarrow> bool" where
  "isObject (JArr xs) = True"
| "isObject (JObj fs) = True"
| "isObject (JRef r) = True"
| "isObject v = False"


fun isEmpty :: "jsval \<Rightarrow> bool" where
  "isEmpty (JArr xs) = (xs = [])"
| "isEmpty (JStr s) = (s = [])"
| "isEmpty (JObj fs) = (fs = [])"
| "isEmpty (JRef r) = False"
| "isEmpty v = True"

text \<open>\<open>a === b\<close>, for operands that are not the same array or parsed object (the
  backend compares values taken from two different parses).\<close>

fun strict_eq :: "jsval \<Rightarrow> jsval \<Rightarrow> bool" where
  "strict_eq (JArr xs) b = False"
| "strict_eq (JObj fs) b = False"
| "strict_eq a b = (a = b)"

definition array_like_obj :: "(string \<times> jsval) list \<Rightarrow> bool" where
  "array_like_obj fs = (case map_of fs ''length'' of Some (JNum n) \<Rightarrow> 0 \<le> n | _ \<Rightarrow> False)"

text \<open>The values a collection function visits, in order.\<close>

definition collection :: "store \<Rightarrow> jsval \<Rightarrow> error + jsval list" where
  "collection st v =
     (case v of
        JArr xs \<Rightarrow> Inr xs
      | JStr s \<Rightarrow> Inr (map (\<lambda>c. JStr [c]) s)
      | JObj fs \<Rightarrow> if array_like_obj fs then Inl Unmodelled else Inr (map snd fs)
      | JRef r \<Rightarrow> Inr (map snd (tmpl_fields st r))
      | _ \<Rightarrow> Inr [])"

text \<open>\<^verbatim>\<open>_.find\<close>: the first value the predicate accepts, or \<^verbatim>\<open>undefined\<close>.\<close>

fun find_js :: "(jsval \<Rightarrow> ('s, bool) js) \<Rightarrow> jsval list \<Rightarrow> ('s, jsval) js" where
  "find_js p [] = ret JUndef"
| "find_js p (x # xs) = bindE (p x) (\<lambda>b. if b then ret x else find_js p xs)"

text \<open>\<^verbatim>\<open>_.intersection(array, other)\<close>: the values of \<^verbatim>\<open>array\<close> that occur in
  \<^verbatim>\<open>other\<close>, each once, in the order of \<^verbatim>\<open>array\<close>.\<close>

definition contains :: "jsval list \<Rightarrow> jsval \<Rightarrow> bool" where
  "contains ys x = (\<exists>y\<in>set ys. strict_eq y x)"

fun intersect_loop :: "jsval list \<Rightarrow> jsval list \<Rightarrow> jsval list \<Rightarrow> jsval list" where
  "intersect_loop [] ys acc = acc"
| "intersect_loop (x # xs) ys acc =
     (if contains acc x then intersect_loop xs ys acc
      else if contains ys x then intersect_loop xs ys (acc @ [x])
      else intersect_loop xs ys acc)"

definition intersection :: "jsval \<Rightarrow> jsval \<Rightarrow> error + jsval" where
  "intersection a b =
     (case b of
        JArr ys \<Rightarrow>
          (case a of
             JArr xs \<Rightarrow> Inr (JArr (intersect_loop xs ys []))
           | JStr s \<Rightarrow> Inr (JArr (intersect_loop (map (\<lambda>c. JStr [c]) s) ys []))
           | JObj fs \<Rightarrow> if map_of fs ''length'' = None then Inr (JArr []) else Inl Unmodelled
           | _ \<Rightarrow> Inr (JArr []))
      | _ \<Rightarrow> Inl Unmodelled)"

text \<open>Assigning a field of an object: an existing key keeps its place, a new key goes last.\<close>

fun upd_field :: "string \<Rightarrow> 'a \<Rightarrow> (string \<times> 'a) list \<Rightarrow> (string \<times> 'a) list" where
  "upd_field k v [] = [(k, v)]"
| "upd_field k v ((k', v') # fs) = (if k' = k then (k, v) # fs else (k', v') # upd_field k v fs)"

fun set_prop :: "jsval \<Rightarrow> string \<Rightarrow> jsval \<Rightarrow> error + jsval" where
  "set_prop JUndef k v = Inl TypeError"
| "set_prop JNull k v = Inl TypeError"
| "set_prop (JObj fs) k v = Inr (JObj (upd_field k v fs))"
| "set_prop x k v = Inl Unmodelled"

section \<open>The security filter\<close>

text \<open>
  The collaborators of the filter that are not in the file: the window registry
  (\<^verbatim>\<open>Windows.getByType('main')\<close>, \<^verbatim>\<open>Windows.getById(this.id)\<close>) and the tab
  collection (\<^verbatim>\<open>Tabs.findOne({webviewId: this.id})\<close>). What they return is a parameter.
\<close>

record view_env =
  this_id :: nat
  main_window :: "nat option"
  this_window_type :: "jsval option"
  tab :: jsval

definition privileged :: "view_env \<Rightarrow> bool" where
  "privileged env =
     ((case main_window env of Some m \<Rightarrow> this_id env = m | None \<Rightarrow> False)
      \<or> (case this_window_type env of
            Some t \<Rightarrow> truthy t \<and> t \<noteq> JStr ''webview''
          | None \<Rightarrow> False))"

text \<open>The value of \<^verbatim>\<open>tab && tab.permissions && tab.permissions.accounts\<close>.\<close>

definition tab_accounts :: "store \<Rightarrow> jsval \<Rightarrow> jsval" where
  "tab_accounts st t =
     (if \<not> truthy t then t
      else let p = the_prop st t ''permissions''
           in if \<not> truthy p then p else the_prop st p ''accounts'')"

text \<open>\<^verbatim>\<open>error ? returnError(payload, error) : false\<close>.\<close>

definition error_or_false :: "jsval \<Rightarrow> tmpl option \<Rightarrow> (store, jsval) js" where
  "error_or_false payload error =
     (case error of Some e \<Rightarrow> returnError payload e | None \<Rightarrow> ret (JBool False))"

text \<open>\<^verbatim>\<open>GethConnection.prototype.testPayload\<close> (lines 581-616).\<close>

definition testPayload :: "jsval \<Rightarrow> jsval \<Rightarrow> tmpl option \<Rightarrow> jsval \<Rightarrow> (store, jsval) js" where
  "testPayload tb payload error method =
     bindE (getp payload ''error'') (\<lambda>err.
       if truthy err then ret payload
       else bindE (getp payload ''method'') (\<lambda>m.
         if truthy m then
           (if \<not> allowed_method (to_str m) then error_or_false payload error
            else ret payload)
         else bindE (getp payload ''result'') (\<lambda>res.
           if truthy res then
             (if \<not> truthy method then error_or_false payload error
              else if method = JStr ''eth_accounts'' then
                (\<lambda>st. if truthy (tab_accounts st tb)
                      then bindE (lift_r (intersection res (tab_accounts st tb)))
                             (\<lambda>r. lift_r (set_prop payload ''result'' r)) st
                      else lift_r (set_prop payload ''result'' (JArr [])) st)
              else ret payload)
           else ret payload)))"

text \<open>
  The part of an IPC event object the backend uses: its identity, the sender's id, and
  the fields the backend adds (\<^verbatim>\<open>sync\<close>, \<^verbatim>\<open>payload\<close>, \<^verbatim>\<open>eventId\<close>).
\<close>

record event =
  ev_id :: nat
  ev_sender :: nat
  ev_sync :: bool
  ev_payload :: jsval
  ev_eventId :: jsval

text \<open>\<^verbatim>\<open>GethConnection.prototype.filterRequestResponse\<close> (lines 626-652).\<close>

definition find_request :: "jsval \<Rightarrow> jsval \<Rightarrow> (store, jsval) js" where
  "find_request reqs load =
     bindE (\<lambda>st. (collection st reqs, st)) (\<lambda>res.
       find_js (\<lambda>re. bindE (getp re ''id'') (\<lambda>a. bindE (getp load ''id'') (\<lambda>b.
         ret (strict_eq a b)))) res)"

definition filter_load :: "jsval \<Rightarrow> event option \<Rightarrow> jsval \<Rightarrow> (store, jsval) js" where
  "filter_load tb event load =
     bindE (case event of Some ev \<Rightarrow> find_request (ev_payload ev) load
                        | None \<Rightarrow> ret (JBool False)) (\<lambda>req.
     bindE (getp load ''result'') (\<lambda>res.
     bindE (if truthy req then getp req ''method'' else ret (JBool False)) (\<lambda>m.
       testPayload tb load (Some (if truthy res then ErrorMethod else NonExistingRequest)) m)))"

definition filterRequestResponse :: "view_env \<Rightarrow> jsval \<Rightarrow> event option \<Rightarrow> (store, jsval) js" where
  "filterRequestResponse env payload event =
     (if \<not> isObject payload then ret (JBool False)
      else if privileged env then ret payload
      else (case payload of
              JArr loads \<Rightarrow>
                bindE (map_js (filter_load (tab env) event) loads) (\<lambda>vs. ret (JArr vs))
            | _ \<Rightarrow>
                bindE (getp payload ''result'') (\<lambda>res.
                bindE (case event of Some ev \<Rightarrow> getp (ev_payload ev) ''method''
                                   | None \<Rightarrow> ret (JBool False)) (\<lambda>m.
                  testPayload (tab env) payload
                    (if truthy res then Some ErrorMethod else None) m))))"

section \<open>The connection\<close>

text \<open>
  \<^verbatim>\<open>JSON.stringify(v)\<close>, identified with the JSON value the text denotes: references are
  read through the store at the time of the call, a field whose value is \<^verbatim>\<open>undefined\<close>
  is left out, and an \<^verbatim>\<open>undefined\<close> array element becomes \<^verbatim>\<open>null\<close>.
\<close>

fun stringify :: "store \<Rightarrow> jsval \<Rightarrow> jsval"
  and stringify_elems :: "store \<Rightarrow> jsval list \<Rightarrow> jsval list"
  and stringify_fields :: "store \<Rightarrow> (string \<times> jsval) list \<Rightarrow> (string \<times> jsval) list" where
  "stringify st (JArr xs) = JArr (stringify_elems st xs)"
| "stringify st (JObj fs) = JObj (stringify_fields st fs)"
| "stringify st (JRef r) = JObj (filter (\<lambda>f. snd f \<noteq> JUndef) (tmpl_fields st r))"
| "stringify st JUndef = JUndef"
| "stringify st JNull = JNull"
| "stringify st (JBool b) = JBool b"
| "stringify st (JNum n) = JNum n"
| "stringify st (JStr x) = JStr x"
| "stringify_elems st [] = []"
| "stringify_elems st (x # xs) =
     (if x = JUndef then JNull else stringify st x) # stringify_elems st xs"
| "stringify_fields st [] = []"
| "stringify_fields st (f # fs) =
     (if snd f = JUndef then stringify_fields st fs
      else (fst f, stringify st (snd f)) # stringify_fields st fs)"

text \<open>
  What leaves the backend towards a view. \<open>ReturnValue n v\<close>: \<^verbatim>\<open>event.returnValue = v\<close>
  on the IPC event with identity \<open>n\<close> (the answer to a synchronous call).
  \<open>Data n w v\<close>: \<^verbatim>\<open>event.sender.send('ipcProvider-data', v)\<close> for the IPC event with
  identity \<open>n\<close>, whose sender is the web contents \<open>w\<close> (the answer to an asynchronous
  call). \<open>Push w channel v\<close>: \<^verbatim>\<open>this.sender.send(channel, v)\<close> to the web contents \<open>w\<close>
  that owns the connection.
\<close>

datatype delivery =
    ReturnValue nat jsval
  | Data nat nat jsval
  | Push nat string jsval

text \<open>
  The state of one \<^verbatim>\<open>GethConnection\<close> together with the module-level templates.
  \<open>written\<close> lists the texts given to \<^verbatim>\<open>ipcSocket.write\<close>, \<open>outbox\<close> the deliveries,
  \<open>popups\<close> the transaction data of the confirmation windows opened and \<open>compiled\<close>
  the sources given to the compiler, each in order. \<open>destroyed\<close> says which web
  contents are gone (\<^verbatim>\<open>isDestroyed()\<close>; \<^verbatim>\<open>getId()\<close> throws on them), \<open>sock_writable\<close>
  is \<^verbatim>\<open>ipcSocket.writable\<close>, \<open>sock_listening\<close> says whether the socket's listeners are
  still attached, and \<open>registered\<close> whether \<^verbatim>\<open>global.sockets\<close> holds the connection.
  The pending maps are association lists from property keys to events; keys that name
  members of \<^verbatim>\<open>Object.prototype\<close> are not modelled.
\<close>

record sys =
  templates :: store
  syncEvents :: "(string \<times> event) list"
  asyncEvents :: "(string \<times> event) list"
  written :: "jsval list"
  outbox :: "delivery list"
  popups :: "jsval list"
  compiled :: "jsval list"
  conn_sender :: nat
  destroyed :: "nat \<Rightarrow> bool"
  sock_writable :: bool
  sock_listening :: bool
  registered :: bool

definition in_store :: "(store, 'a) js \<Rightarrow> (sys, 'a) js" where
  "in_store m s = (case m (templates s) of (r, st') \<Rightarrow> (r, s\<lparr>templates := st'\<rparr>))"

definition emit :: "delivery \<Rightarrow> (sys, unit) js" where
  "emit d s = (Inr (), s\<lparr>outbox := outbox s @ [d]\<rparr>)"

text \<open>
  \<^verbatim>\<open>if(event.sync) event.returnValue = JSON.stringify(v); else
  event.sender.send('ipcProvider-data', JSON.stringify(v));\<close>
\<close>

definition answer :: "bool \<Rightarrow> event \<Rightarrow> jsval \<Rightarrow> delivery" where
  "answer sy ev v = (if sy then ReturnValue (ev_id ev) v else Data (ev_id ev) (ev_sender ev) v)"

definition deliver :: "event \<Rightarrow> jsval \<Rightarrow> (sys, unit) js" where
  "deliver ev v s = emit (answer (ev_sync ev) ev (stringify (templates s) v)) s"

subsection \<open>The continuation of a request\<close>

text \<open>
  The callback that \<^verbatim>\<open>sendRequest\<close> hands to \<^verbatim>\<open>checkRequests\<close> (lines 885-916). Its
  first argument is \<^verbatim>\<open>null\<close>, an error template or \<^verbatim>\<open>true\<close>.
\<close>

datatype cb_err = NoError | ErrorTemplate tmpl | ErrorTrue

definition request_id :: "jsval \<Rightarrow> (store, jsval) js" where
  "request_id result =
     bindE (getp result ''id'') (\<lambda>i.
       if truthy i then ret i
       else bindE (\<lambda>st. (get_index0 st result, st)) (\<lambda>r0. getp r0 ''id''))"

definition register_event :: "event \<Rightarrow> (sys, unit) js" where
  "register_event ev s =
     (Inr (),
      if ev_sync ev
      then s\<lparr>syncEvents := upd_field (to_str (ev_eventId ev)) ev (syncEvents s)\<rparr>
      else s\<lparr>asyncEvents := upd_field (to_str (ev_eventId ev)) ev (asyncEvents s)\<rparr>)"

definition socket_write :: "jsval \<Rightarrow> (sys, unit) js" where
  "socket_write v s = (Inr (), s\<lparr>written := written s @ [stringify (templates s) v]\<rparr>)"

definition callback :: "event \<Rightarrow> jsval \<Rightarrow> cb_err \<Rightarrow> jsval \<Rightarrow> (sys, unit) js" where
  "callback ev jsonPayload e result =
     (if e = NoError \<and> \<not> isEmpty result then
        bindE (in_store (request_id result)) (\<lambda>i.
        bindE (register_event (ev\<lparr>ev_payload := result, ev_eventId := i\<rparr>)) (\<lambda>_.
          socket_write result))
      else (case e of
              ErrorTemplate t \<Rightarrow> bindE (in_store (returnError jsonPayload t)) (deliver ev)
            | _ \<Rightarrow> ret ()))"

subsection \<open>The privileged-action gate\<close>

text \<open>
  The closure that \<^verbatim>\<open>checkRequests\<close> leaves behind for a single
  \<^verbatim>\<open>eth_sendTransaction\<close> request: the flag \<^verbatim>\<open>called\<close>, whether the listener registered
  with \<^verbatim>\<open>ipc.once\<close> is still in place, the payload (which the decision handler mutates)
  and the callback.
\<close>

record gate =
  g_called :: bool
  g_armed :: bool
  g_payload :: jsval
  g_callback :: "cb_err \<Rightarrow> jsval \<Rightarrow> (sys, unit) js"

text \<open>\<^verbatim>\<open>solc.compile(source, 1)\<close> is a parameter. The response built from its output
  (lines 730-732):\<close>

definition compile_response :: "store \<Rightarrow> jsval \<Rightarrow> jsval \<Rightarrow> jsval" where
  "compile_response st out i =
     (if \<not> truthy out \<or> truthy (the_prop st out ''errors'')
      then JObj [(''jsonrpc'', JStr ''2.0''),
                 (''error'', JObj [(''code'', JNum (- 32700)),
                                   (''message'', if truthy out
                                                 then the_prop st out ''errors''
                                                 else JStr ''Compile error'')]),
                 (''id'', i)]
      else JObj [(''jsonrpc'', JStr ''2.0''),
                 (''result'', the_prop st out ''contracts''),
                 (''id'', i)])"

definition is_sendTransaction :: "jsval \<Rightarrow> (store, bool) js" where
  "is_sendTransaction payload =
     bindE (getp payload ''method'') (\<lambda>m. ret (m = JStr ''eth_sendTransaction''))"

definition first_param :: "jsval \<Rightarrow> (store, jsval) js" where
  "first_param payload =
     bindE (getp payload ''params'') (\<lambda>ps st. (get_index0 st ps, st))"

text \<open>\<^verbatim>\<open>GethConnection.prototype.checkRequests\<close> (lines 663-747). The result is the gate
  left waiting for the confirmation window, if any.\<close>

definition checkRequests ::
  "(jsval \<Rightarrow> jsval) \<Rightarrow> jsval \<Rightarrow> event \<Rightarrow> (cb_err \<Rightarrow> jsval \<Rightarrow> (sys, unit) js)
     \<Rightarrow> (sys, gate option) js" where
  "checkRequests solc filteredPayload ev cb =
     (case filteredPayload of
        JArr ps \<Rightarrow>
          bindE (in_store (find_js is_sendTransaction ps)) (\<lambda>found.
            if truthy found then bindE (cb (ErrorTemplate ErrorSendTxBatch) JUndef) (\<lambda>_. ret None)
            else bindE (cb NoError filteredPayload) (\<lambda>_. ret None))
      | _ \<Rightarrow>
          bindE (in_store (getp filteredPayload ''method'')) (\<lambda>m.
            if m = JStr ''eth_sendTransaction'' then
              bindE (in_store (first_param filteredPayload)) (\<lambda>p0 s.
                (Inr (Some \<lparr>g_called = False, g_armed = True,
                             g_payload = filteredPayload, g_callback = cb\<rparr>),
                 s\<lparr>popups := popups s @ [p0]\<rparr>))
            else if m = JStr ''eth_compileSolidity'' then
              bindE (in_store (first_param filteredPayload)) (\<lambda>src.
              bindE (\<lambda>s. (Inr (solc src), s\<lparr>compiled := compiled s @ [src]\<rparr>)) (\<lambda>out.
              bindE (in_store (getp filteredPayload ''id'')) (\<lambda>i.
              bindE (\<lambda>s. deliver ev (compile_response (templates s) out i) s) (\<lambda>_.
              bindE (cb ErrorTrue JUndef) (\<lambda>_. ret None)))))
            else bindE (cb NoError filteredPayload) (\<lambda>_. ret None)))"

text \<open>
  \<^verbatim>\<open>sendRequest\<close> (lines 833-917), for the connection of the sending view. The lookup
  or creation of the connection and the reconnect attempt (lines 836-848) are not
  modelled; \<open>sock_writable\<close> is what the test on line 851 reads. On that path
  \<^verbatim>\<open>jsonPayload\<close> is still \<^verbatim>\<open>undefined\<close>. The payload is given parsed.
\<close>

definition sendRequest ::
  "view_env \<Rightarrow> (jsval \<Rightarrow> jsval) \<Rightarrow> event \<Rightarrow> jsval \<Rightarrow> bool \<Rightarrow> (sys, gate option) js" where
  "sendRequest env solc event0 jsonPayload sync s =
     (if \<not> sock_writable s then
        bindE (in_store (returnError JUndef ErrorTimeout)) (\<lambda>v.
        bindE (deliver event0 v) (\<lambda>_. ret None)) s
      else
        bindE (in_store (filterRequestResponse env jsonPayload None)) (\<lambda>filteredPayload.
          let ev = event0\<lparr>ev_sync := ev_sync event0 \<or> sync\<rparr> in
          if isEmpty filteredPayload then
            bindE (in_store (returnError jsonPayload ErrorMethod)) (\<lambda>v.
            bindE (deliver ev v) (\<lambda>_. ret None))
          else checkRequests solc filteredPayload ev (callback ev jsonPayload)) s)"

text \<open>
  The two listeners of the gate (lines 689-720), on the gate and the connection state.
  \<open>on_closed\<close> is the confirmation window's \<^verbatim>\<open>closed\<close> event. \<open>on_unlocked\<close> is an
  IPC message \<^verbatim>\<open>backendAction_unlockedAccount\<close> with arguments \<open>err\<close> and \<open>result\<close>;
  \<open>from_modal\<close> is the value of \<^verbatim>\<open>modalWindow.webContents && ev.sender.getId() ===
  modalWindow.id\<close>. A listener registered with \<^verbatim>\<open>once\<close> is removed before it runs.
\<close>

definition call_latched :: "cb_err \<Rightarrow> jsval \<Rightarrow> (gate \<times> sys, unit) js" where
  "call_latched e v = (\<lambda>(g, s).
     if \<not> g_called g then
       (case g_callback g e v s of
          (Inl x, s') \<Rightarrow> (Inl x, (g, s'))
        | (Inr u, s') \<Rightarrow> (Inr (), (g\<lparr>g_called := True\<rparr>, s')))
     else (Inr (), (g\<lparr>g_called := True\<rparr>, s)))"

definition on_closed :: "(gate \<times> sys, unit) js" where
  "on_closed = (\<lambda>(g, s).
     if \<not> g_called g then
       (case g_callback g (ErrorTemplate ErrorUnlock) JUndef s of
          (Inl x, s') \<Rightarrow> (Inl x, (g, s'))
        | (Inr u, s') \<Rightarrow> (Inr (), (g\<lparr>g_called := True\<rparr>, s')))
     else (Inr (), (g, s)))"

definition set_gas :: "store \<Rightarrow> jsval \<Rightarrow> jsval \<Rightarrow> error + jsval" where
  "set_gas st payload v =
     (case get_prop st payload ''params'' of
        Inl x \<Rightarrow> Inl x
      | Inr ps \<Rightarrow>
          (case get_index0 st ps of
             Inl x \<Rightarrow> Inl x
           | Inr p0 \<Rightarrow>
               (case set_prop p0 ''gas'' v of
                  Inl x \<Rightarrow> Inl x
                | Inr p0' \<Rightarrow>
                    (case ps of
                       JArr xs \<Rightarrow> set_prop payload ''params'' (JArr (p0' # tl xs))
                     | JObj fs \<Rightarrow> set_prop payload ''params'' (JObj (upd_field ''0'' p0' fs))
                     | _ \<Rightarrow> Inl Unmodelled))))"

definition on_unlocked :: "bool \<Rightarrow> jsval \<Rightarrow> jsval \<Rightarrow> (gate \<times> sys, unit) js" where
  "on_unlocked from_modal err result = (\<lambda>(g, s).
     if \<not> g_armed g then (Inr (), (g, s))
     else
       let g1 = g\<lparr>g_armed := False\<rparr> in
       if \<not> from_modal then (Inr (), (g1, s))
       else if truthy err \<or> \<not> truthy result then
         call_latched (ErrorTemplate ErrorUnlock) JUndef (g1, s)
       else
         (case set_gas (templates s) (g_payload g1) result of
            Inl x \<Rightarrow> (Inl x, (g1, s))
          | Inr p \<Rightarrow> call_latched NoError p (g1\<lparr>g_payload := p\<rparr>, s)))"

subsection \<open>Responses, timeouts and the end of a connection\<close>
















section \<open>The lifecycle coordinator\<close>

text \<open>
  \<^verbatim>\<open>IpcProviderBackend._onNodeStateChanged\<close> (lines 118-154). The registry
  \<^verbatim>\<open>this._connections\<close> holds the objects that \<^verbatim>\<open>_createConnection\<close> builds (lines
  74-77), with the two fields \<^verbatim>\<open>owner\<close> and \<^verbatim>\<open>socket\<close>; windows and sockets are
  identified by numbers. The effects are recorded: the messages sent to owners, the
  sockets disconnected and the sockets on which a connect was attempted.

  \<^verbatim>\<open>Q.map\<close> is bluebird's \<^verbatim>\<open>Promise.map\<close>, which is not part of the repository. The
  items it hands to the mapper are the parameter \<open>handed\<close>; an exception in the mapper
  rejects the promise and is logged by the \<^verbatim>\<open>catch\<close> handler. Whether a connect attempt
  succeeds is the parameter \<open>connects\<close>.
\<close>

datatype node_state = STARTING | CONNECTED | STOPPING | STOPPED

record backend =
  sent :: "(jsval \<times> string \<times> jsval) list"
  disconnected :: "jsval list"
  connect_attempts :: "jsval list"

definition new_connection :: "nat \<Rightarrow> nat \<Rightarrow> jsval" where
  "new_connection wnd sock = JObj [(''owner'', JNum (int wnd)), (''socket'', JNum (int sock))]"

definition item_prop :: "jsval \<Rightarrow> string \<Rightarrow> (backend, jsval) js" where
  "item_prop v k = lift_r (get_prop initial_store v k)"

text \<open>The argument of \<^verbatim>\<open>log.debug\<close>: the template literal evaluates
  \<^verbatim>\<open>item.sender.getId()\<close>.\<close>

definition log_sender_id :: "jsval \<Rightarrow> (backend, unit) js" where
  "log_sender_id item =
     bindE (item_prop item ''sender'') (\<lambda>sender.
     bindE (item_prop sender ''getId'') (\<lambda>_. ret ()))"

definition send_setWritable :: "jsval \<Rightarrow> bool \<Rightarrow> (backend, unit) js" where
  "send_setWritable item b =
     bindE (item_prop item ''owner'') (\<lambda>owner s.
       (Inr (), s\<lparr>sent := sent s @ [(owner, ''ipcProvider-setWritable'', JBool b)]\<rparr>))"

definition stopping_mapper :: "jsval \<Rightarrow> (backend, unit) js" where
  "stopping_mapper item =
     bindE (log_sender_id item) (\<lambda>_.
     bindE (send_setWritable item False) (\<lambda>_.
     bindE (item_prop item ''socket'') (\<lambda>sock s.
       (Inr (), s\<lparr>disconnected := disconnected s @ [sock]\<rparr>))))"

definition connected_mapper :: "(jsval \<Rightarrow> bool) \<Rightarrow> jsval \<Rightarrow> (backend, unit) js" where
  "connected_mapper connects item =
     bindE (item_prop item ''socket'') (\<lambda>sock.
     bindE (\<lambda>s. (Inr (), s\<lparr>connect_attempts := connect_attempts s @ [sock]\<rparr>)) (\<lambda>_.
       if connects sock
       then bindE (log_sender_id item) (\<lambda>_. send_setWritable item True)
       else ret ()))"

fun settle_all :: "(jsval \<Rightarrow> (backend, unit) js) \<Rightarrow> jsval list \<Rightarrow> backend \<Rightarrow> backend" where
  "settle_all f [] s = s"
| "settle_all f (x # xs) s = settle_all f xs (snd (f x s))"

definition onNodeStateChanged ::
  "jsval list \<Rightarrow> (jsval \<Rightarrow> bool) \<Rightarrow> node_state \<Rightarrow> backend \<Rightarrow> backend" where
  "onNodeStateChanged handed connects state s =
     (case state of
        STOPPING \<Rightarrow> settle_all stopping_mapper handed s
      | CONNECTED \<Rightarrow> settle_all (connected_mapper connects) handed s
      | _ \<Rightarrow> s)"

section \<open>Example inputs\<close>

text \<open>
  An embedded view (web contents 7) that is neither the main window nor a window of
  its own, with one granted account; the main window (1); a connection that has just
  been created; an IPC event as the framework delivers it.
\<close>

definition untrusted_view :: view_env where
  "untrusted_view =
     \<lparr>this_id = 7, main_window = Some 1, this_window_type = None,
      tab = JObj [(''permissions'', JObj [(''accounts'', JArr [JStr ''0xAAA''])])]\<rparr>"

definition main_view :: view_env where
  "main_view = \<lparr>this_id = 1, main_window = Some 1, this_window_type = Some (JStr ''main''),
                 tab = JUndef\<rparr>"

definition fresh_connection :: "nat \<Rightarrow> sys" where
  "fresh_connection w =
     \<lparr>templates = initial_store, syncEvents = [], asyncEvents = [], written = [],
      outbox = [], popups = [], compiled = [], conn_sender = w, destroyed = (\<lambda>_. False),
      sock_writable = True, sock_listening = True, registered = True\<rparr>"

definition ipc_event :: "nat \<Rightarrow> nat \<Rightarrow> event" where
  "ipc_event n w =
     \<lparr>ev_id = n, ev_sender = w, ev_sync = False, ev_payload = JUndef, ev_eventId = JUndef\<rparr>"

definition no_compiler :: "jsval \<Rightarrow> jsval" where
  "no_compiler src = JUndef"

definition request :: "jsval \<Rightarrow> string \<Rightarrow> jsval list \<Rightarrow> jsval" where
  "request i m ps =
     JObj [(''jsonrpc'', JStr ''2.0''), (''id'', i), (''method'', JStr m), (''params'', JArr ps)]"

section \<open>Basic facts\<close>


lemma answer_sync_upd [simp]: "answer sy (ev\<lparr>ev_sync := b\<rparr>) v = answer sy ev v"
  by (simp add: answer_def)

lemma callback_true [simp]: "callback ev json ErrorTrue v s = (Inr (), s)"
  by (simp add: callback_def ret_def)

text \<open>A request whose method is in an allowed namespace passes the filter unchanged,
  for every view.\<close>

lemma filter_passes_allowed:
  assumes "map_of fs ''method'' = Some m" "truthy m" "allowed_method (to_str m)"
  shows "filterRequestResponse env (JObj fs) None st = (Inr (JObj fs), st)"
  using assms
  by (auto simp: filterRequestResponse_def testPayload_def bindE_def ret_def getp_def
      split: option.splits)

text \<open>
  The messages of two templates have no quoted placeholder, so \<^verbatim>\<open>makeError\<close> never
  changes them. \<open>error_response\<close> is the text of an error template, given its message and
  id.
\<close>

definition store_ok :: "store \<Rightarrow> bool" where
  "store_ok st =
     (t_message (st ErrorUnlock) = initial_message ErrorUnlock
      \<and> t_message (st ErrorSendTxBatch) = initial_message ErrorSendTxBatch)"

definition error_response :: "int \<Rightarrow> string \<Rightarrow> jsval \<Rightarrow> jsval" where
  "error_response code msg i =
     JObj (filter (\<lambda>f. snd f \<noteq> JUndef)
       [(''jsonrpc'', JStr ''2.0''),
        (''error'', JObj [(''code'', JNum code), (''message'', JStr msg)]),
        (''id'', i)])"


lemma no_match_batch: "find_match [] (initial_message ErrorSendTxBatch) = None"
  by code_simp

lemma store_ok_initial: "store_ok initial_store"
  by (simp add: store_ok_def initial_store_def)

lemma stringify_ref:
  "tmpl_has_error e \<Longrightarrow>
   stringify st (JRef e) = error_response (tmpl_code e) (t_message (st e)) (t_id (st e))"
  by (simp add: tmpl_fields_def error_response_def)

lemma stringify_replicate:
  "stringify_elems st (replicate n (JRef e)) = replicate n (stringify st (JRef e))"
  by (induction n) simp_all

lemma is_sendTransaction_defined:
  "defined p \<Longrightarrow> is_sendTransaction p st =
     (Inr (the_prop st p ''method'' = JStr ''eth_sendTransaction''), st)"
  by (simp add: is_sendTransaction_def bindE_def getp_def ret_def get_prop_defined)

lemma sendTransaction_truthy:
  "the_prop st p ''method'' = JStr ''eth_sendTransaction'' \<Longrightarrow> truthy p"
  by (cases p) (simp_all add: the_prop_def)

lemma find_sendTransaction:
  assumes "\<forall>p\<in>set ps. defined p"
  shows "\<exists>x. find_js is_sendTransaction ps st = (Inr x, st)
     \<and> (truthy x \<longleftrightarrow> (\<exists>p\<in>set ps. the_prop st p ''method'' = JStr ''eth_sendTransaction''))"
  using assms
proof (induction ps)
  case Nil
  then show ?case by (simp add: ret_def)
next
  case (Cons p ps)
  then show ?case
    by (auto simp: bindE_def ret_def is_sendTransaction_defined sendTransaction_truthy)
qed

section \<open>The method filter (C1)\<close>

text \<open>
  C1. A request from an untrusted view whose method is outside the allowed namespaces
  must not reach the daemon socket and must be answered with a "method not allowed"
  error. The code does not do this for every request: \<^verbatim>\<open>testPayload\<close> returns a payload
  that has a truthy \<^verbatim>\<open>error\<close> field before it looks at the method. The request
  \<^verbatim>\<open>{"jsonrpc":"2.0","id":1,"method":"admin_addPeer","params":[],"error":true}\<close> sent
  synchronously by the untrusted view is written to the socket as it is, registered as a
  pending call, and no error is delivered.
\<close>

definition admin_request_with_error_field :: jsval where
  "admin_request_with_error_field =
     JObj [(''jsonrpc'', JStr ''2.0''), (''id'', JNum 1), (''method'', JStr ''admin_addPeer''),
           (''params'', JArr []), (''error'', JBool True)]"

theorem admin_request_with_error_field_reaches_socket:
  "written (snd (sendRequest untrusted_view no_compiler (ipc_event 100 7)
                   admin_request_with_error_field True (fresh_connection 7)))
     = [admin_request_with_error_field]
   \<and> outbox (snd (sendRequest untrusted_view no_compiler (ipc_event 100 7)
                   admin_request_with_error_field True (fresh_connection 7))) = []
   \<and> map fst (syncEvents (snd (sendRequest untrusted_view no_compiler (ipc_event 100 7)
                   admin_request_with_error_field True (fresh_connection 7)))) = [''1'']"
  by code_simp

section \<open>Daemon state changes (C9)\<close>

lemma log_sender_id_throws:
  "map_of fs ''sender'' = None \<Longrightarrow> log_sender_id (JObj fs) s = (Inl TypeError, s)"
  by (simp add: log_sender_id_def item_prop_def lift_r_def bindE_def)

lemma stopping_mapper_no_effect:
  "map_of fs ''sender'' = None \<Longrightarrow> snd (stopping_mapper (JObj fs) s) = s"
  by (simp add: stopping_mapper_def bindE_def log_sender_id_throws)

lemma connected_mapper_sends_nothing:
  "map_of fs ''sender'' = None \<Longrightarrow> sent (snd (connected_mapper connects (JObj fs) s)) = sent s"
  by (simp add: connected_mapper_def bindE_def log_sender_id_throws item_prop_def lift_r_def
      ret_def split: option.splits)

lemma settle_stopping:
  "settle_all stopping_mapper (map (\<lambda>c. new_connection (fst c) (snd c)) cs) s = s"
  by (induction cs arbitrary: s) (simp_all add: new_connection_def stopping_mapper_no_effect)

lemma settle_connected:
  "sent (settle_all (connected_mapper connects) (map (\<lambda>c. new_connection (fst c) (snd c)) cs) s)
     = sent s"
  by (induction cs arbitrary: s)
    (simp_all add: new_connection_def connected_mapper_sends_nothing)

text \<open>
  C9. On STOPPING every owner should be sent \<^verbatim>\<open>setWritable(false)\<close> and every socket
  disconnected; on CONNECTED every owner whose socket reconnects should be sent
  \<^verbatim>\<open>setWritable(true)\<close>. The code sends neither message: the mapper first evaluates
  \<^verbatim>\<open>item.sender.getId()\<close> for the log line, and the registry's items have no
  \<^verbatim>\<open>sender\<close> field, so the mapper throws before it reaches \<^verbatim>\<open>item.owner.send\<close>. This
  holds for whichever registry items the mapper is handed.
\<close>

theorem onNodeStateChanged_never_sets_writable:
  "onNodeStateChanged (map (\<lambda>c. new_connection (fst c) (snd c)) cs) connects STOPPING s = s
   \<and> sent (onNodeStateChanged (map (\<lambda>c. new_connection (fst c) (snd c)) cs) connects CONNECTED s)
       = sent s"
  by (simp add: onNodeStateChanged_def settle_stopping settle_connected)

section \<open>Local compilation (C6)\<close>

text \<open>
  C6. A single \<^verbatim>\<open>eth_compileSolidity\<close> request (an object with that method and with
  \<^verbatim>\<open>params\<close>) from any view is never written to the socket and is not registered as
  pending. The compiler is called once, on \<^verbatim>\<open>params[0]\<close>, and the caller gets exactly one
  answer, through \<^verbatim>\<open>event.returnValue\<close> for a synchronous call and through an
  \<^verbatim>\<open>ipcProvider-data\<close> push otherwise. The answer carries the request's id. It is a
  result envelope with the compiled contracts when the compiler reports no errors and
  an error envelope (code -32700) with the compiler's errors when it reports some.
\<close>

theorem compileSolidity_handled_locally:
  assumes w: "sock_writable s"
    and m: "map_of fs ''method'' = Some (JStr ''eth_compileSolidity'')"
    and p: "map_of fs ''params'' = Some ps" "defined ps"
  shows "\<exists>src response.
       get_index0 (templates s) ps = Inr src
     \<and> response = compile_response (templates s) (solc src)
                      (the_prop (templates s) (JObj fs) ''id'')
     \<and> sendRequest env solc ev (JObj fs) sync s =
         (Inr None,
          s\<lparr>compiled := compiled s @ [src],
            outbox := outbox s @
              [answer (ev_sync ev \<or> sync) ev (stringify (templates s) response)]\<rparr>)
     \<and> the_prop (templates s) response ''id'' = the_prop (templates s) (JObj fs) ''id''
     \<and> (truthy (solc src) \<and> \<not> truthy (the_prop (templates s) (solc src) ''errors'') \<longrightarrow>
          the_prop (templates s) response ''result''
            = the_prop (templates s) (solc src) ''contracts''
          \<and> the_prop (templates s) response ''error'' = JUndef)
     \<and> (truthy (the_prop (templates s) (solc src) ''errors'') \<longrightarrow>
          the_prop (templates s) response ''error''
            = JObj [(''code'', JNum (- 32700)),
                    (''message'', the_prop (templates s) (solc src) ''errors'')]
          \<and> the_prop (templates s) response ''result'' = JUndef)"
proof -
  have "\<exists>src. get_index0 (templates s) ps = Inr src"
    using p(2) by (cases ps) (simp_all add: defined_def split: list.splits option.splits)
  then obtain src where src: "get_index0 (templates s) ps = Inr src" ..
  define response where
    "response = compile_response (templates s) (solc src) (the_prop (templates s) (JObj fs) ''id'')"
  have f: "filterRequestResponse env (JObj fs) None (templates s) = (Inr (JObj fs), templates s)"
    using m by (intro filter_passes_allowed [where m = "JStr ''eth_compileSolidity''"])
      (simp_all add: allowed_method_def starts_with_def)
  have ne: "fs \<noteq> []" using m by auto
  have run: "sendRequest env solc ev (JObj fs) sync s =
         (Inr None,
          s\<lparr>compiled := compiled s @ [src],
            outbox := outbox s @
              [answer (ev_sync ev \<or> sync) ev (stringify (templates s) response)]\<rparr>)"
    unfolding response_def using w m p(1) src f ne
    by (simp add: sendRequest_def checkRequests_def first_param_def deliver_def emit_def
        in_store_def bindE_def ret_def getp_def the_prop_def Let_def split: option.splits)
  have i: "the_prop (templates s) response ''id'' = the_prop (templates s) (JObj fs) ''id''"
    by (simp add: response_def compile_response_def the_prop_def)
  have ok: "truthy (solc src) \<and> \<not> truthy (the_prop (templates s) (solc src) ''errors'') \<longrightarrow>
          the_prop (templates s) response ''result''
            = the_prop (templates s) (solc src) ''contracts''
          \<and> the_prop (templates s) response ''error'' = JUndef"
    by (simp add: response_def compile_response_def the_prop_def)
  have "truthy (the_prop (templates s) (solc src) ''errors'') \<Longrightarrow> truthy (solc src)"
    by (cases "solc src") (simp_all add: the_prop_def)
  then have bad: "truthy (the_prop (templates s) (solc src) ''errors'') \<longrightarrow>
          the_prop (templates s) response ''error''
            = JObj [(''code'', JNum (- 32700)),
                    (''message'', the_prop (templates s) (solc src) ''errors'')]
          \<and> the_prop (templates s) response ''result'' = JUndef"
    by (simp add: response_def compile_response_def the_prop_def)
  show ?thesis
    by (rule exI [of _ src], rule exI [of _ response])
      (use src response_def run i ok bad in simp)
qed

definition example_compiler :: "jsval \<Rightarrow> jsval" where
  "example_compiler src = JObj [(''contracts'', JObj [(''X'', JStr ''6060'')])]"

theorem compileSolidity_handled_locally_witness:
  "written (snd (sendRequest untrusted_view example_compiler (ipc_event 100 7)
       (request (JNum 3) ''eth_compileSolidity'' [JStr ''contract X {}'']) False
       (fresh_connection 7))) = []
   \<and> compiled (snd (sendRequest untrusted_view example_compiler (ipc_event 100 7)
       (request (JNum 3) ''eth_compileSolidity'' [JStr ''contract X {}'']) False
       (fresh_connection 7))) = [JStr ''contract X {}'']
   \<and> outbox (snd (sendRequest untrusted_view example_compiler (ipc_event 100 7)
       (request (JNum 3) ''eth_compileSolidity'' [JStr ''contract X {}'']) False
       (fresh_connection 7)))
     = [Data 100 7 (JObj [(''jsonrpc'', JStr ''2.0''),
                          (''result'', JObj [(''X'', JStr ''6060'')]),
                          (''id'', JNum 3)])]"
  using compileSolidity_handled_locally
    [where s = "fresh_connection 7"
       and fs = "[(''jsonrpc'', JStr ''2.0''), (''id'', JNum 3),
                  (''method'', JStr ''eth_compileSolidity''),
                  (''params'', JArr [JStr ''contract X {}''])]"
       and ps = "JArr [JStr ''contract X {}'']" and env = untrusted_view
       and solc = example_compiler and ev = "ipc_event 100 7" and sync = False]
  by (auto simp: fresh_connection_def request_def defined_def example_compiler_def
      compile_response_def the_prop_def answer_def ipc_event_def)

section \<open>Batches at the gate (C3)\<close>

text \<open>
  The values \<^verbatim>\<open>JSON.parse\<close> produces: no \<^verbatim>\<open>undefined\<close> and no reference to a
  template, at any depth. Their text denotes them.
\<close>

declare stringify.simps(3) [simp del]

fun json :: "jsval \<Rightarrow> bool"
  and json_list :: "jsval list \<Rightarrow> bool"
  and json_fields :: "(string \<times> jsval) list \<Rightarrow> bool" where
  "json JUndef = False"
| "json (JRef r) = False"
| "json (JArr xs) = json_list xs"
| "json (JObj fs) = json_fields fs"
| "json JNull = True"
| "json (JBool b) = True"
| "json (JNum n) = True"
| "json (JStr x) = True"
| "json_list [] = True"
| "json_list (x # xs) = (json x \<and> json_list xs)"
| "json_fields [] = True"
| "json_fields (f # fs) = (json (snd f) \<and> json_fields fs)"

lemma stringify_json:
  "json v \<Longrightarrow> stringify st v = v"
  "json_list xs \<Longrightarrow> stringify_elems st xs = xs"
  "json_fields fs \<Longrightarrow> stringify_fields st fs = fs"
  by (induction v and xs and fs rule: json_json_list_json_fields.induct) auto

lemma json_list_all: "json_list xs = (\<forall>x\<in>set xs. json x)"
  by (induction xs) auto

lemma method_static: "the_prop st p ''method'' = the_prop st' p ''method''"
  by (cases p) (simp_all add: the_prop_def tmpl_fields_def)

lemma json_not_ref: "json q \<Longrightarrow> q \<noteq> JRef r"
  by auto

lemma json_prop_static: "json q \<Longrightarrow> the_prop st q k = the_prop st' q k"
  by (cases q) (simp_all add: the_prop_def)

lemma filter_load_request:
  assumes "json load" "load \<noteq> JNull"
  shows "\<exists>v st'. filter_load tb None load st = (Inr v, st')
     \<and> (v = load \<or> v = JRef ErrorMethod \<or> v = JRef NonExistingRequest)
     \<and> (the_prop st load ''method'' = JStr ''eth_sendTransaction'' \<longrightarrow> v = load)
     \<and> st' ErrorSendTxBatch = st ErrorSendTxBatch \<and> st' ErrorUnlock = st ErrorUnlock
     \<and> st' ErrorTimeout = st ErrorTimeout"
proof -
  have d: "defined load" using assms by (cases load) (simp_all add: defined_def)
  have nr: "load \<noteq> JRef r" for r using assms by auto
  have na: "truthy (the_prop st load ''method'') \<or> truthy (the_prop st load ''result'')
      \<Longrightarrow> returnError load e st = makeError load e st" for e
    by (cases load) (simp_all add: returnError_def the_prop_def)
  show ?thesis
    using d nr na
    by (auto simp: filter_load_def testPayload_def error_or_false_def bindE_def ret_def getp_def
        get_prop_defined makeError_defined allowed_method_def starts_with_def)
qed


lemma ref_method_not_sendTransaction:
  "the_prop st (JRef r) ''method'' \<noteq> JStr ''eth_sendTransaction''"
  by (simp add: the_prop_def tmpl_fields_def)

lemma ref_defined [simp]: "defined (JRef r)"
  by (simp add: defined_def)

lemma filter_batch_request:
  assumes "\<forall>q\<in>set qs. json q \<and> q \<noteq> JNull"
  shows "\<exists>ps st'. map_js (filter_load tb None) qs st = (Inr ps, st')
     \<and> length ps = length qs \<and> (\<forall>p\<in>set ps. defined p)
     \<and> ((\<exists>p\<in>set ps. the_prop st p ''method'' = JStr ''eth_sendTransaction'')
          \<longleftrightarrow> (\<exists>q\<in>set qs. the_prop st q ''method'' = JStr ''eth_sendTransaction''))
     \<and> st' ErrorSendTxBatch = st ErrorSendTxBatch \<and> st' ErrorUnlock = st ErrorUnlock
     \<and> st' ErrorTimeout = st ErrorTimeout"
  using assms
proof (induction qs arbitrary: st)
  case Nil
  then show ?case by (simp add: ret_def)
next
  case (Cons q qs)
  have q: "json q" "q \<noteq> JNull" using Cons.prems by simp_all
  from filter_load_request [OF q, of tb st] obtain v st1 where
    v: "filter_load tb None q st = (Inr v, st1)"
    and shape: "v = q \<or> v = JRef ErrorMethod \<or> v = JRef NonExistingRequest"
    and keep: "the_prop st q ''method'' = JStr ''eth_sendTransaction'' \<longrightarrow> v = q"
    and fr: "st1 ErrorSendTxBatch = st ErrorSendTxBatch" "st1 ErrorUnlock = st ErrorUnlock"
            "st1 ErrorTimeout = st ErrorTimeout"
    by blast
  have "\<exists>ps st'. map_js (filter_load tb None) qs st1 = (Inr ps, st')
     \<and> length ps = length qs \<and> (\<forall>p\<in>set ps. defined p)
     \<and> ((\<exists>p\<in>set ps. the_prop st1 p ''method'' = JStr ''eth_sendTransaction'')
          \<longleftrightarrow> (\<exists>q\<in>set qs. the_prop st1 q ''method'' = JStr ''eth_sendTransaction''))
     \<and> st' ErrorSendTxBatch = st1 ErrorSendTxBatch \<and> st' ErrorUnlock = st1 ErrorUnlock
     \<and> st' ErrorTimeout = st1 ErrorTimeout"
    using Cons.prems by (intro Cons.IH) simp
  then obtain ps st' where
    tl: "map_js (filter_load tb None) qs st1 = (Inr ps, st')"
    and len: "length ps = length qs" and df: "\<forall>p\<in>set ps. defined p"
    and iff1: "(\<exists>p\<in>set ps. the_prop st1 p ''method'' = JStr ''eth_sendTransaction'')
          \<longleftrightarrow> (\<exists>q\<in>set qs. the_prop st1 q ''method'' = JStr ''eth_sendTransaction'')"
    and fr': "st' ErrorSendTxBatch = st1 ErrorSendTxBatch" "st' ErrorUnlock = st1 ErrorUnlock"
             "st' ErrorTimeout = st1 ErrorTimeout"
    by blast
  have iff: "(\<exists>p\<in>set ps. the_prop st p ''method'' = JStr ''eth_sendTransaction'')
          \<longleftrightarrow> (\<exists>q\<in>set qs. the_prop st q ''method'' = JStr ''eth_sendTransaction'')"
    using iff1 method_static [of st1 _ st] by simp
  have dv: "defined v"
    using shape q by (cases q) (auto simp: defined_def)
  have hdiff: "the_prop st v ''method'' = JStr ''eth_sendTransaction''
        \<longleftrightarrow> the_prop st q ''method'' = JStr ''eth_sendTransaction''"
    using shape keep ref_method_not_sendTransaction by auto
  have r: "map_js (filter_load tb None) (q # qs) st = (Inr (v # ps), st')"
    using v tl by (simp add: bindE_def ret_def)
  show ?case
    by (rule exI [of _ "v # ps"], rule exI [of _ st'])
      (use r len df dv iff hdiff fr fr' in auto)
qed


lemma json_defined: "json q \<Longrightarrow> q \<noteq> JNull \<Longrightarrow> defined q"
  by (cases q) (simp_all add: defined_def)

lemma filter_batch:
  assumes "\<forall>q\<in>set qs. json q \<and> q \<noteq> JNull"
  shows "\<exists>ps st'. filterRequestResponse env (JArr qs) None st = (Inr (JArr ps), st')
     \<and> length ps = length qs \<and> (\<forall>p\<in>set ps. defined p)
     \<and> ((\<exists>p\<in>set ps. the_prop st p ''method'' = JStr ''eth_sendTransaction'')
          \<longleftrightarrow> (\<exists>q\<in>set qs. the_prop st q ''method'' = JStr ''eth_sendTransaction''))
     \<and> st' ErrorSendTxBatch = st ErrorSendTxBatch \<and> st' ErrorUnlock = st ErrorUnlock
     \<and> st' ErrorTimeout = st ErrorTimeout
     \<and> (privileged env \<longrightarrow> ps = qs \<and> st' = st)"
proof (cases "privileged env")
  case True
  have "filterRequestResponse env (JArr qs) None st = (Inr (JArr qs), st)"
    using True by (simp add: filterRequestResponse_def ret_def)
  moreover have "\<forall>p\<in>set qs. defined p"
    using assms by (simp add: json_defined)
  ultimately show ?thesis
    by (intro exI [of _ qs] exI [of _ st]) simp
next
  case False
  from filter_batch_request [OF assms, of "tab env" st] obtain ps st' where
    m: "map_js (filter_load (tab env) None) qs st = (Inr ps, st')"
    and rest: "length ps = length qs" "\<forall>p\<in>set ps. defined p"
      "(\<exists>p\<in>set ps. the_prop st p ''method'' = JStr ''eth_sendTransaction'')
          \<longleftrightarrow> (\<exists>q\<in>set qs. the_prop st q ''method'' = JStr ''eth_sendTransaction'')"
      "st' ErrorSendTxBatch = st ErrorSendTxBatch" "st' ErrorUnlock = st ErrorUnlock"
      "st' ErrorTimeout = st ErrorTimeout"
    by blast
  have "filterRequestResponse env (JArr qs) None st = (Inr (JArr ps), st')"
    using False m by (simp add: filterRequestResponse_def bindE_def ret_def)
  then show ?thesis
    using False rest by (intro exI [of _ ps] exI [of _ st']) simp
qed

lemma callback_forward_batch:
  assumes "ps \<noteq> []" "\<forall>p\<in>set ps. defined p"
  shows "\<exists>s'. callback ev jsonPayload NoError (JArr ps) s = (Inr (), s')
     \<and> written s' = written s @ [stringify (templates s) (JArr ps)]
     \<and> outbox s' = outbox s \<and> templates s' = templates s"
proof -
  obtain p ps' where ps: "ps = p # ps'" using assms(1) by (cases ps) auto
  have "defined p" using assms(2) ps by simp
  then show ?thesis
    unfolding ps
    by (simp add: callback_def request_id_def register_event_def socket_write_def in_store_def
        bindE_def ret_def getp_def get_prop_defined)
qed

lemma callback_denied_batch:
  assumes "\<forall>q\<in>set qs. json q \<and> q \<noteq> JNull" "tmpl_has_error e"
    "find_match [] (t_message (templates s e)) = None"
  shows "\<exists>s'. callback ev (JArr qs) (ErrorTemplate e) v s = (Inr (), s')
     \<and> written s' = written s \<and> syncEvents s' = syncEvents s \<and> asyncEvents s' = asyncEvents s
     \<and> outbox s' = outbox s @
          [answer (ev_sync ev) ev
             (JArr (replicate (length qs)
                (error_response (tmpl_code e) (t_message (templates s e))
                   (the_prop (templates s) (last qs) ''id''))))]"
proof -
  have el: "\<forall>p\<in>set qs. defined p \<and> p \<noteq> JRef e"
    using assms(1) by (auto simp: json_defined)
  from map_makeError [OF el, of "templates s"] obtain st' where
    m: "map_js (\<lambda>load. makeError load e) qs (templates s)
          = (Inr (replicate (length qs) (JRef e)), st')"
    and i: "qs \<noteq> [] \<longrightarrow> t_id (st' e) = the_prop (templates s) (last qs) ''id''"
    and msg: "t_message (st' e) = t_message (templates s e)"
    using assms(3) by blast
  have str: "stringify st' (JArr (replicate (length qs) (JRef e)))
      = JArr (replicate (length qs)
                (error_response (tmpl_code e) (t_message (templates s e))
                   (the_prop (templates s) (last qs) ''id'')))"
    using i msg assms(2) by (cases "qs = []") (simp_all add: stringify_replicate stringify_ref)
  show ?thesis
    using m str
    by (simp add: callback_def returnError_def deliver_def emit_def in_store_def bindE_def ret_def)
qed


text \<open>
  The empty batch has no \<^verbatim>\<open>eth_sendTransaction\<close> element, and it is not passed to the
  socket: \<^verbatim>\<open>_.isEmpty\<close> holds of the filtered payload, so \<^verbatim>\<open>sendRequest\<close> answers with
  the "method not allowed" error for the batch, which is the empty array, and returns
  before the gate. This is so even for the main window.
\<close>

theorem empty_batch_is_not_forwarded:
  "written (snd (sendRequest main_view no_compiler (ipc_event 100 1) (JArr []) False
                   (fresh_connection 1))) = []
   \<and> outbox (snd (sendRequest main_view no_compiler (ipc_event 100 1) (JArr []) False
                   (fresh_connection 1))) = [Data 100 1 (JArr [])]"
  by code_simp

text \<open>
  C3, amended. Take a batch of parsed JSON values none of which is \<^verbatim>\<open>null\<close>, sent by any
  view over a writable socket. If some element has the method \<^verbatim>\<open>eth_sendTransaction\<close>,
  nothing is written to the socket, nothing is registered as pending, and the caller
  gets one answer: an array with one error object per request, each with code -32603,
  the message "Transactions denied, sendTransaction is not allowed in batch requests."
  and the id of the last request of the batch. If the batch is not empty and no element
  has that method, exactly one text is written to the socket: the batch as the security
  filter returned it, which for a privileged view is the batch itself; nothing is
  delivered to the caller.
\<close>

theorem batch_gate:
  assumes w: "sock_writable s" and ok: "store_ok (templates s)"
    and qs: "\<forall>q\<in>set qs. json q \<and> q \<noteq> JNull"
  shows "((\<exists>q\<in>set qs. the_prop (templates s) q ''method'' = JStr ''eth_sendTransaction'') \<longrightarrow>
          (\<exists>s'. sendRequest env solc ev (JArr qs) sync s = (Inr None, s')
              \<and> written s' = written s
              \<and> syncEvents s' = syncEvents s \<and> asyncEvents s' = asyncEvents s
              \<and> outbox s' = outbox s @
                   [answer (ev_sync ev \<or> sync) ev
                      (JArr (replicate (length qs)
                         (error_response (- 32603) (initial_message ErrorSendTxBatch)
                            (the_prop (templates s) (last qs) ''id''))))]))
      \<and> (qs \<noteq> [] \<and> (\<forall>q\<in>set qs. the_prop (templates s) q ''method''
                                     \<noteq> JStr ''eth_sendTransaction'') \<longrightarrow>
          (\<exists>s' ps. sendRequest env solc ev (JArr qs) sync s = (Inr None, s')
              \<and> fst (filterRequestResponse env (JArr qs) None (templates s)) = Inr (JArr ps)
              \<and> written s' = written s @ [stringify (templates s') (JArr ps)]
              \<and> (privileged env \<longrightarrow> written s' = written s @ [JArr qs])
              \<and> outbox s' = outbox s))"
proof -
  let ?st = "templates s"
  let ?ev = "ev\<lparr>ev_sync := ev_sync ev \<or> sync\<rparr>"
  from filter_batch [OF qs, of env ?st] obtain ps st1 where
    f: "filterRequestResponse env (JArr qs) None ?st = (Inr (JArr ps), st1)"
    and len: "length ps = length qs" and df: "\<forall>p\<in>set ps. defined p"
    and iff: "(\<exists>p\<in>set ps. the_prop ?st p ''method'' = JStr ''eth_sendTransaction'')
          \<longleftrightarrow> (\<exists>q\<in>set qs. the_prop ?st q ''method'' = JStr ''eth_sendTransaction'')"
    and fr: "st1 ErrorSendTxBatch = ?st ErrorSendTxBatch"
    and priv: "privileged env \<longrightarrow> ps = qs \<and> st1 = ?st"
    by blast
  let ?s1 = "s\<lparr>templates := st1\<rparr>"
  from find_sendTransaction [OF df, of st1] obtain x where
    x: "find_js is_sendTransaction ps st1 = (Inr x, st1)"
    and tx: "truthy x \<longleftrightarrow> (\<exists>p\<in>set ps. the_prop st1 p ''method'' = JStr ''eth_sendTransaction'')"
    by blast
  have tx': "truthy x \<longleftrightarrow> (\<exists>q\<in>set qs. the_prop ?st q ''method'' = JStr ''eth_sendTransaction'')"
    using tx iff method_static [of st1 _ ?st] by simp
  have run: "ps \<noteq> [] \<Longrightarrow> sendRequest env solc ev (JArr qs) sync s =
      (if truthy x
       then bindE (callback ?ev (JArr qs) (ErrorTemplate ErrorSendTxBatch) JUndef) (\<lambda>_. ret None) ?s1
       else bindE (callback ?ev (JArr qs) NoError (JArr ps)) (\<lambda>_. ret None) ?s1)"
    using w f x
    by (simp add: sendRequest_def checkRequests_def in_store_def bindE_def Let_def)
  have A: "\<exists>s'. sendRequest env solc ev (JArr qs) sync s = (Inr None, s')
              \<and> written s' = written s
              \<and> syncEvents s' = syncEvents s \<and> asyncEvents s' = asyncEvents s
              \<and> outbox s' = outbox s @
                   [answer (ev_sync ev \<or> sync) ev
                      (JArr (replicate (length qs)
                         (error_response (- 32603) (initial_message ErrorSendTxBatch)
                            (the_prop (templates s) (last qs) ''id''))))]"
    if some: "\<exists>q\<in>set qs. the_prop ?st q ''method'' = JStr ''eth_sendTransaction''"
  proof -
    have ne: "qs \<noteq> []" "ps \<noteq> []" using some len by auto
    have nm: "find_match [] (t_message (templates ?s1 ErrorSendTxBatch)) = None"
      using ok fr by (simp add: store_ok_def no_match_batch)
    from callback_denied_batch [OF qs _ nm, of ?ev JUndef] obtain s' where
      c: "callback ?ev (JArr qs) (ErrorTemplate ErrorSendTxBatch) JUndef ?s1 = (Inr (), s')"
      and k: "written s' = written ?s1" "syncEvents s' = syncEvents ?s1"
             "asyncEvents s' = asyncEvents ?s1"
      and o: "outbox s' = outbox ?s1 @
          [answer (ev_sync ?ev) ?ev
             (JArr (replicate (length qs)
                (error_response (tmpl_code ErrorSendTxBatch)
                   (t_message (templates ?s1 ErrorSendTxBatch))
                   (the_prop (templates ?s1) (last qs) ''id''))))]"
      by (auto simp: tmpl_has_error_def)
    have lastj: "json (last qs)" using ne qs by simp
    have idl: "the_prop (templates ?s1) (last qs) ''id'' = the_prop ?st (last qs) ''id''"
      using json_prop_static [OF lastj] by simp
    have msg: "t_message (templates ?s1 ErrorSendTxBatch) = initial_message ErrorSendTxBatch"
      using ok fr by (simp add: store_ok_def)
    have "sendRequest env solc ev (JArr qs) sync s = (Inr None, s')"
      using run [OF ne(2)] some tx' c by (simp add: bindE_def ret_def)
    then show ?thesis
      using k o idl msg by (intro exI [of _ s']) (simp add: tmpl_code_def)
  qed
  have B: "\<exists>s' ps. sendRequest env solc ev (JArr qs) sync s = (Inr None, s')
              \<and> fst (filterRequestResponse env (JArr qs) None (templates s)) = Inr (JArr ps)
              \<and> written s' = written s @ [stringify (templates s') (JArr ps)]
              \<and> (privileged env \<longrightarrow> written s' = written s @ [JArr qs])
              \<and> outbox s' = outbox s"
    if ne: "qs \<noteq> []"
      and none: "\<forall>q\<in>set qs. the_prop ?st q ''method'' \<noteq> JStr ''eth_sendTransaction''"
  proof -
    have pne: "ps \<noteq> []" using ne len by auto
    from callback_forward_batch [OF pne df, of ?ev "JArr qs" ?s1] obtain s' where
      c: "callback ?ev (JArr qs) NoError (JArr ps) ?s1 = (Inr (), s')"
      and wr: "written s' = written ?s1 @ [stringify (templates ?s1) (JArr ps)]"
      and o: "outbox s' = outbox ?s1" and t: "templates s' = templates ?s1"
      by blast
    have r: "sendRequest env solc ev (JArr qs) sync s = (Inr None, s')"
      using run [OF pne] none tx' c by (simp add: bindE_def ret_def)
    have jq: "json (JArr qs)" using qs by (simp add: json_list_all)
    have pw: "privileged env \<longrightarrow> written s' = written s @ [JArr qs]"
      using priv wr stringify_json(1) [OF jq] by auto
    show ?thesis
      using r f wr o t pw by (intro exI [of _ s'] exI [of _ ps]) simp
  qed
  show ?thesis using A B by blast
qed


theorem batch_gate_witness:
  "written (snd (sendRequest untrusted_view no_compiler (ipc_event 100 7)
       (JArr [request (JNum 1) ''eth_sendTransaction'' [JObj [(''to'', JStr ''0x1'')]],
              request (JNum 2) ''eth_getBalance'' []]) False (fresh_connection 7))) = []
   \<and> outbox (snd (sendRequest untrusted_view no_compiler (ipc_event 100 7)
       (JArr [request (JNum 1) ''eth_sendTransaction'' [JObj [(''to'', JStr ''0x1'')]],
              request (JNum 2) ''eth_getBalance'' []]) False (fresh_connection 7)))
     = [Data 100 7 (JArr
          [error_response (- 32603) (initial_message ErrorSendTxBatch) (JNum 2),
           error_response (- 32603) (initial_message ErrorSendTxBatch) (JNum 2)])]
   \<and> written (snd (sendRequest main_view no_compiler (ipc_event 101 1)
       (JArr [request (JNum 3) ''eth_blockNumber'' []]) False (fresh_connection 1)))
     = [JArr [request (JNum 3) ''eth_blockNumber'' []]]"
  using batch_gate
    [where s = "fresh_connection 7" and env = untrusted_view and solc = no_compiler
       and ev = "ipc_event 100 7" and sync = False
       and qs = "[request (JNum 1) ''eth_sendTransaction'' [JObj [(''to'', JStr ''0x1'')]],
                  request (JNum 2) ''eth_getBalance'' []]"]
    batch_gate
    [where s = "fresh_connection 1" and env = main_view and solc = no_compiler
       and ev = "ipc_event 101 1" and sync = False
       and qs = "[request (JNum 3) ''eth_blockNumber'' []]"]
  by (auto simp: fresh_connection_def store_ok_initial request_def the_prop_def answer_def
      ipc_event_def main_view_def privileged_def)

section \<open>Transaction confirmation (C4, C5)\<close>





lemma map_of_upd_field [simp]: "map_of (upd_field k v fs) k = Some v"
  by (induction fs) auto

lemma map_of_upd_field_other [simp]: "k' \<noteq> k \<Longrightarrow> map_of (upd_field k v fs) k' = map_of fs k'"
  by (induction fs) auto














text \<open>
  C4. Take a single \<^verbatim>\<open>eth_sendTransaction\<close> request (a parsed JSON object with
  \<^verbatim>\<open>params\<close>) from any view over a writable socket. \<^verbatim>\<open>sendRequest\<close> opens the
  confirmation window on \<^verbatim>\<open>params[0]\<close> and leaves a gate; it writes nothing to the socket
  and delivers nothing. If the window then reports approval with gas \<open>gas\<close> (no error,
  a truthy result), nothing is delivered to the caller, and whatever is written to the
  socket is the request with \<^verbatim>\<open>params[0].gas\<close> equal to \<open>gas\<close> and its id and method
  unchanged; it is written when \<^verbatim>\<open>params[0]\<close> is an object and the request id is truthy.
  If the window reports denial (an error or a falsy result), or is closed first, the
  caller gets the "Transaction denied" error (code -32603) with the request's id, nothing
  is written, and no later signal writes or delivers anything.
\<close>

definition tx_denied :: "event \<Rightarrow> bool \<Rightarrow> jsval \<Rightarrow> delivery" where
  "tx_denied ev sync i =
     answer (ev_sync ev \<or> sync) ev (error_response (- 32603) (initial_message ErrorUnlock) i)"




text \<open>
  C5. The gate is meant to resolve a request once: the first signal decides, later ones
  are ignored. The handlers set the flag \<^verbatim>\<open>called\<close> only after the callback has
  returned, and the callback throws on an approved request whose id is falsy
  (\<^verbatim>\<open>result.id || result[0].id\<close> reads \<^verbatim>\<open>result[0].id\<close> of an object). For the request
  \<^verbatim>\<open>{"jsonrpc":"2.0","id":0,"method":"eth_sendTransaction","params":[{"to":"0x1"}]}\<close>
  the approval signal invokes the callback, which throws and leaves \<^verbatim>\<open>called\<close> unset
  with nothing written; the window's \<^verbatim>\<open>closed\<close> signal that follows invokes the callback
  a second time, and the caller is told "Transaction denied".
\<close>

theorem approval_then_close_invokes_callback_twice:
  "(case sendRequest untrusted_view no_compiler (ipc_event 100 7)
           (request (JNum 0) ''eth_sendTransaction'' [JObj [(''to'', JStr ''0x1'')]]) False
           (fresh_connection 7) of
      (Inr (Some g), s1) \<Rightarrow>
        (case on_unlocked True JNull (JNum 21000) (g, s1) of
           (r, (g1, s2)) \<Rightarrow>
             r = Inl TypeError \<and> \<not> g_called g1 \<and> written s2 = [] \<and> outbox s2 = []
             \<and> (case on_closed (g1, s2) of
                   (r', (g2, s3)) \<Rightarrow>
                     r' = Inr () \<and> g_called g2 \<and> written s3 = []
                     \<and> outbox s3 = [tx_denied (ipc_event 100 7) False (JNum 0)]))
    | _ \<Rightarrow> False)"
  by code_simp

section \<open>Account narrowing (C2)\<close>














section \<open>Socket timeout (C7)\<close>






















section \<open>Resolution of pending calls (C8)\<close>



















































end
